theory Spec2Isabelle
  imports Complex_Main
begin

section \<open>Python values and exceptions\<close>

text \<open>
  The module \<^verbatim>\<open>geospatial_functions.py\<close> is embedded function by function. A Python
  exception is a value of \<open>exn\<close>; a function that may raise returns \<open>exn + 'a\<close>, with
  \<open>Inl\<close> for the exception that leaves the function. What the Python runtime and the
  libraries compute (float arithmetic, \<^verbatim>\<open>str.title\<close>, the queries, the centroid of a
  geometry) is a parameter of the function that uses it.
\<close>

datatype exn =
    ValueError string
  | KeyError string
  | AttributeError string
  | ZeroDivisionError string
  | LibraryError string

text \<open>\<^verbatim>\<open>str(e)\<close>: the message; a \<^verbatim>\<open>KeyError\<close> prints the repr of its key.\<close>

definition apostrophe :: string where
  "apostrophe = [CHR 0x27]"

fun exn_str :: "exn \<Rightarrow> string" where
  "exn_str (ValueError m) = m"
| "exn_str (KeyError k) = apostrophe @ k @ apostrophe"
| "exn_str (AttributeError m) = m"
| "exn_str (ZeroDivisionError m) = m"
| "exn_str (LibraryError m) = m"

section \<open>The street network and its centroid\<close>

text \<open>
  A networkx graph: the nodes in insertion order, each with its attribute dictionary
  (\<^verbatim>\<open>graph.nodes(data=True)\<close>), and the edges, which only the external libraries read.
\<close>

type_synonym 'f node_data = "string \<rightharpoonup> 'f"

record ('f, 'ed) graph =
  nodes :: "(nat \<times> 'f node_data) list"
  edges :: "'ed"

text \<open>
  \<^verbatim>\<open>[data[k] for node, data in graph.nodes(data=True)]\<close>: the comprehension raises
  \<^verbatim>\<open>KeyError\<close> at the first node whose dictionary lacks the key.
\<close>

fun node_values :: "string \<Rightarrow> (nat \<times> 'f node_data) list \<Rightarrow> exn + 'f list" where
  "node_values k [] = Inr []"
| "node_values k ((node, data) # rest) =
     (case data k of
        None \<Rightarrow> Inl (KeyError k)
      | Some v \<Rightarrow>
          (case node_values k rest of
             Inl e \<Rightarrow> Inl e
           | Inr vs \<Rightarrow> Inr (v # vs)))"

text \<open>
  The coordinates are Python floats, values of a type \<open>'f\<close> that is left open. The
  arithmetic on them is the runtime's, in binary64 with its rounding, infinities and
  NaN: \<open>float_sum\<close> is the built-in \<^verbatim>\<open>sum\<close> on a list of floats and \<open>float_div\<close> the
  division \<^verbatim>\<open>/\<close> of a float by a positive length. Division by the length 0 raises.
\<close>

record 'f float_arith =
  float_sum :: "'f list \<Rightarrow> 'f"
  float_div :: "'f \<Rightarrow> nat \<Rightarrow> 'f"

definition py_div :: "'f float_arith \<Rightarrow> 'f \<Rightarrow> nat \<Rightarrow> exn + 'f" where
  "py_div fl a n =
     (if n = 0 then Inl (ZeroDivisionError ''division by zero'') else Inr (float_div fl a n))"

definition calculate_graph_centroid ::
  "'f float_arith \<Rightarrow> ('f, 'ed) graph \<Rightarrow> exn + ('f \<times> 'f)" where
  "calculate_graph_centroid fl g =
     (if nodes g = [] then Inl (ValueError ''Graph has no nodes to calculate a centroid.'')
      else
        (case node_values ''x'' (nodes g) of
           Inl e \<Rightarrow> Inl e
         | Inr node_xs \<Rightarrow>
        (case node_values ''y'' (nodes g) of
           Inl e \<Rightarrow> Inl e
         | Inr node_ys \<Rightarrow>
        (case py_div fl (float_sum fl node_ys) (length node_ys) of
           Inl e \<Rightarrow> Inl e
         | Inr latitude \<Rightarrow>
        (case py_div fl (float_sum fl node_xs) (length node_xs) of
           Inl e \<Rightarrow> Inl e
         | Inr longitude \<Rightarrow> Inr (latitude, longitude))))))"

text \<open>
  The values that the nodes carry under a key, and the graphs all of whose nodes carry
  both coordinates.
\<close>

definition coordinates :: "string \<Rightarrow> ('f, 'ed) graph \<Rightarrow> 'f list" where
  "coordinates k g = map (\<lambda>(node, data). the (data k)) (nodes g)"

definition has_coordinates :: "('f, 'ed) graph \<Rightarrow> bool" where
  "has_coordinates g =
     list_all (\<lambda>(node, data). data ''x'' \<noteq> None \<and> data ''y'' \<noteq> None) (nodes g)"

text \<open>
  For the examples: the three-node network of the end-to-end scenario, as (lat, lon)
  pairs, the centre that the runtime's arithmetic gives it, and an arithmetic on the
  reals that does not round. On this network every sum and quotient is a small integer,
  which binary64 represents exactly, so the two arithmetics agree on it.
\<close>

definition three_nodes :: "(real, unit) graph" where
  "three_nodes =
     \<lparr>nodes = [(1, [''y'' \<mapsto> 10, ''x'' \<mapsto> 20]),
                (2, [''y'' \<mapsto> 20, ''x'' \<mapsto> 30]),
                (3, [''y'' \<mapsto> 30, ''x'' \<mapsto> 40])],
      edges = ()\<rparr>"

definition three_nodes_centre :: "real float_arith \<Rightarrow> real \<times> real" where
  "three_nodes_centre fl =
     (float_div fl (float_sum fl [10, 20, 30]) 3, float_div fl (float_sum fl [20, 30, 40]) 3)"

definition exact_arithmetic :: "real float_arith" where
  "exact_arithmetic = \<lparr>float_sum = sum_list, float_div = (\<lambda>a n. a / real n)\<rparr>"

section \<open>Points of interest\<close>

text \<open>
  A row of the POI GeoDataFrame: the entry of the geometry column, which is a shapely
  geometry or \<^verbatim>\<open>None\<close>, and the other columns (OSM tags and the name) by label. A
  column that exists in the frame but has no value in this row holds the float NaN.
  The coordinates of a geometry are finite floats, read as reals: the code hands them
  on without arithmetic.
\<close>

datatype geometry =
    Point real real
  | LineString "(real \<times> real) list"
  | Polygon "(real \<times> real) list"
  | MultiPolygon "(real \<times> real) list list"

fun geom_type :: "geometry \<Rightarrow> string" where
  "geom_type (Point x y) = ''Point''"
| "geom_type (LineString cs) = ''LineString''"
| "geom_type (Polygon ring) = ''Polygon''"
| "geom_type (MultiPolygon parts) = ''MultiPolygon''"

text \<open>The truth value of a geometry object is that it is not empty.\<close>

fun is_empty :: "geometry \<Rightarrow> bool" where
  "is_empty (Point x y) = False"
| "is_empty (LineString cs) = (cs = [])"
| "is_empty (Polygon ring) = (ring = [])"
| "is_empty (MultiPolygon parts) = list_all (\<lambda>ring. ring = []) parts"

datatype py_value = PyStr string | PyNaN | PyNone

fun truthy :: "py_value \<Rightarrow> bool" where
  "truthy (PyStr s) = (s \<noteq> [])"
| "truthy PyNaN = True"
| "truthy PyNone = False"

text \<open>\<^verbatim>\<open>f"{v}"\<close>, the text of a value inside an f-string.\<close>

fun py_str :: "py_value \<Rightarrow> string" where
  "py_str (PyStr s) = s"
| "py_str PyNaN = ''nan''"
| "py_str PyNone = ''None''"

record poi_row =
  geometry :: "geometry option"
  columns :: "string \<rightharpoonup> py_value"

text \<open>\<^verbatim>\<open>row.get(k, default)\<close> and \<^verbatim>\<open>row[k]\<close> on the labelled columns.\<close>

definition row_get :: "poi_row \<Rightarrow> string \<Rightarrow> py_value \<Rightarrow> py_value" where
  "row_get row k dflt = (case columns row k of None \<Rightarrow> dflt | Some v \<Rightarrow> v)"

definition row_item :: "poi_row \<Rightarrow> string \<Rightarrow> exn + py_value" where
  "row_item row k = (case columns row k of None \<Rightarrow> Inl (KeyError k) | Some v \<Rightarrow> Inr v)"

subsection \<open>The POI fetcher\<close>

text \<open>
  \<open>features_from_place\<close> is the feature query of the external library, a parameter:
  it returns the rows found or raises. The body of the \<^verbatim>\<open>try\<close> comes first, then the
  function with its \<^verbatim>\<open>except Exception\<close> handler around that body.
\<close>

definition no_pois_message :: "string \<Rightarrow> string" where
  "no_pois_message place_name =
     ''No POIs found for '' @ apostrophe @ place_name @ apostrophe @
     '' with the specified tags.''"

definition could_not_retrieve_message :: "string \<Rightarrow> string" where
  "could_not_retrieve_message place_name =
     ''Could not retrieve POIs for '' @ apostrophe @ place_name @ apostrophe @
     ''. Check tags or place name.''"

definition get_points_of_interest_try ::
  "(string \<Rightarrow> 't \<Rightarrow> exn + poi_row list) \<Rightarrow> string \<Rightarrow> 't \<Rightarrow> exn + poi_row list" where
  "get_points_of_interest_try features_from_place place_name tags =
     (case features_from_place place_name tags of
        Inl e \<Rightarrow> Inl e
      | Inr pois \<Rightarrow>
          if pois = [] then Inl (ValueError (no_pois_message place_name))
          else Inr pois)"

definition get_points_of_interest ::
  "(string \<Rightarrow> 't \<Rightarrow> exn + poi_row list) \<Rightarrow> string \<Rightarrow> 't \<Rightarrow> exn + poi_row list" where
  "get_points_of_interest features_from_place place_name tags =
     (case get_points_of_interest_try features_from_place place_name tags of
        Inl e \<Rightarrow> Inl (ValueError (could_not_retrieve_message place_name))
      | Inr pois \<Rightarrow> Inr pois)"

section \<open>The map builder\<close>

subsection \<open>Text of a tag value\<close>

text \<open>
  \<^verbatim>\<open>s.replace('_', ' ')\<close> changes single bytes. \<^verbatim>\<open>s.title()\<close> works with the case tables
  of the runtime, on every cased character of Unicode; it is a parameter \<open>title\<close> of the
  functions that build the label.
\<close>

definition replace_underscores :: "string \<Rightarrow> string" where
  "replace_underscores s = map (\<lambda>c. if c = CHR ''_'' then CHR '' '' else c) s"

text \<open>
  \<^verbatim>\<open>f"Type: {v.replace('_', ' ').title()}"\<close> on a column value: only a string has the
  method \<^verbatim>\<open>replace\<close>.
\<close>

fun type_text :: "(string \<Rightarrow> string) \<Rightarrow> py_value \<Rightarrow> exn + string" where
  "type_text title (PyStr s) = Inr (''Type: '' @ title (replace_underscores s))"
| "type_text title PyNaN =
     Inl (AttributeError (apostrophe @ ''float'' @ apostrophe @
            '' object has no attribute '' @ apostrophe @ ''replace'' @ apostrophe))"
| "type_text title PyNone =
     Inl (AttributeError (apostrophe @ ''NoneType'' @ apostrophe @
            '' object has no attribute '' @ apostrophe @ ''replace'' @ apostrophe))"

definition item_type_text :: "(string \<Rightarrow> string) \<Rightarrow> poi_row \<Rightarrow> string \<Rightarrow> exn + string" where
  "item_type_text title row k =
     (case row_item row k of Inl e \<Rightarrow> Inl e | Inr v \<Rightarrow> type_text title v)"

subsection \<open>Markers and the body of the loop\<close>

record marker =
  location :: "real \<times> real"
  popup :: string
  popup_max_width :: nat
  icon_color :: string
  icon_name :: string
  icon_prefix :: string

text \<open>The four cluster objects, by the variables that hold them.\<close>

datatype cluster =
    marker_cluster_attractions
  | marker_cluster_cafes
  | marker_cluster_parks
  | marker_cluster_other

fun cluster_name :: "cluster \<Rightarrow> string" where
  "cluster_name marker_cluster_attractions = ''Attractions''"
| "cluster_name marker_cluster_cafes = ''Cafes''"
| "cluster_name marker_cluster_parks = ''Parks''"
| "cluster_name marker_cluster_other = ''Other POIs''"

text \<open>The condition of the \<^verbatim>\<open>if\<close> that guards the \<^verbatim>\<open>try\<close>.\<close>

definition has_supported_geometry :: "poi_row \<Rightarrow> bool" where
  "has_supported_geometry row =
     (case geometry row of
        None \<Rightarrow> False
      | Some g \<Rightarrow> \<not> is_empty g \<and> geom_type g \<in> set [''Point'', ''Polygon'', ''MultiPolygon''])"

text \<open>
  \<open>(lon, lat)\<close> of a geometry: the coordinates of a point, the centroid of anything
  else. The centroid is computed by the geometry library, a parameter \<open>centroid\<close> that
  returns \<open>(x, y)\<close> or raises.
\<close>

definition lon_lat :: "(geometry \<Rightarrow> exn + real \<times> real) \<Rightarrow> geometry \<Rightarrow> exn + real \<times> real" where
  "lon_lat centroid g =
     (if geom_type g \<noteq> ''Point'' then centroid g
      else (case g of
              Point x y \<Rightarrow> Inr (x, y)
            | _ \<Rightarrow> Inl (AttributeError ''x'')))"

definition popup_text :: "(string \<Rightarrow> string) \<Rightarrow> poi_row \<Rightarrow> exn + string" where
  "popup_text title row =
     (let name_text = py_str (row_get row ''name'' (PyStr ''Unnamed POI'')) in
      if truthy (row_get row ''tourism'' PyNone) then
        (case item_type_text title row ''tourism'' of Inl e \<Rightarrow> Inl e | Inr t \<Rightarrow> Inr (name_text @ t))
      else if truthy (row_get row ''amenity'' PyNone) then
        (case item_type_text title row ''amenity'' of Inl e \<Rightarrow> Inl e | Inr t \<Rightarrow> Inr (name_text @ t))
      else if truthy (row_get row ''leisure'' PyNone) then
        (case item_type_text title row ''leisure'' of Inl e \<Rightarrow> Inl e | Inr t \<Rightarrow> Inr (name_text @ t))
      else if truthy (row_get row ''shop'' PyNone) then
        (case item_type_text title row ''shop'' of Inl e \<Rightarrow> Inl e | Inr t \<Rightarrow> Inr (name_text @ t))
      else Inr name_text)"

text \<open>\<^verbatim>\<open>k in row and row[k] == v\<close>.\<close>

definition in_and_equals :: "poi_row \<Rightarrow> string \<Rightarrow> string \<Rightarrow> bool" where
  "in_and_equals row k v = (columns row k \<noteq> None \<and> the (columns row k) = PyStr v)"

text \<open>Icon colour, icon name and cluster of a row.\<close>

definition icon_and_cluster :: "poi_row \<Rightarrow> string \<times> string \<times> cluster" where
  "icon_and_cluster row =
     (if in_and_equals row ''tourism'' ''attraction'' then
        (''red'', ''star'', marker_cluster_attractions)
      else if in_and_equals row ''amenity'' ''cafe'' then
        (''green'', ''coffee'', marker_cluster_cafes)
      else if in_and_equals row ''leisure'' ''park'' then
        (''lightgreen'', ''tree'', marker_cluster_parks)
      else (''blue'', ''info'', marker_cluster_other))"

text \<open>
  The body of the \<^verbatim>\<open>try\<close>: the marker of a row and the cluster it is added to, or
  the exception raised on the way.
\<close>

definition marker_for_row ::
  "(string \<Rightarrow> string) \<Rightarrow> (geometry \<Rightarrow> exn + real \<times> real) \<Rightarrow> poi_row \<Rightarrow> exn + cluster \<times> marker" where
  "marker_for_row title centroid row =
     (case geometry row of
        None \<Rightarrow>
          Inl (AttributeError (apostrophe @ ''NoneType'' @ apostrophe @
                 '' object has no attribute '' @ apostrophe @ ''geom_type'' @ apostrophe))
      | Some g \<Rightarrow>
     (case lon_lat centroid g of
        Inl e \<Rightarrow> Inl e
      | Inr (lon, lat) \<Rightarrow>
     (case popup_text title row of
        Inl e \<Rightarrow> Inl e
      | Inr text \<Rightarrow>
     (case icon_and_cluster row of
        (color, icon, add_to_cluster) \<Rightarrow>
          Inr (add_to_cluster,
               \<lparr>location = (lat, lon), popup = text, popup_max_width = 300,
                icon_color = color, icon_name = icon, icon_prefix = ''fa''\<rparr>)))))"

subsection \<open>The loop over the rows\<close>

text \<open>
  The state of the loop: the markers held by each of the four cluster objects, which
  the map refers to, and the lines printed for skipped rows. The progress messages of
  the function are not part of the state.
\<close>

record build =
  clusters :: "cluster \<Rightarrow> marker list"
  printed :: "string list"

definition skip_message :: "poi_row \<Rightarrow> exn \<Rightarrow> string" where
  "skip_message row e =
     ''Skipping POI '' @ apostrophe @ py_str (row_get row ''name'' (PyStr ''Unnamed'')) @
     apostrophe @ '' due to geometry error: '' @ exn_str e"

definition process_row ::
  "(string \<Rightarrow> string) \<Rightarrow> (geometry \<Rightarrow> exn + real \<times> real) \<Rightarrow> poi_row \<Rightarrow> build \<Rightarrow> build" where
  "process_row title centroid row st =
     (if has_supported_geometry row then
        (case marker_for_row title centroid row of
           Inr (add_to_cluster, m) \<Rightarrow>
             st\<lparr>clusters := (clusters st)(add_to_cluster := clusters st add_to_cluster @ [m])\<rparr>
         | Inl e \<Rightarrow> st\<lparr>printed := printed st @ [skip_message row e]\<rparr>)
      else st)"

fun poi_loop ::
  "(string \<Rightarrow> string) \<Rightarrow> (geometry \<Rightarrow> exn + real \<times> real) \<Rightarrow> poi_row list \<Rightarrow> build \<Rightarrow> build" where
  "poi_loop title centroid [] st = st"
| "poi_loop title centroid (row # rows) st = poi_loop title centroid rows (process_row title centroid row st)"

subsection \<open>The map document\<close>

text \<open>
  The map as it is returned: its centre, its zoom and its children in the order in
  which they were added. \<open>graph_to_gdfs\<close> is the conversion of the edges by the external
  library together with the construction of the street layer from them, a parameter
  that returns the edge collection or raises; the street layer is styled with a fixed
  colour, weight 2 and opacity 0.7.
  Finite coordinates are valid marker locations.
\<close>

datatype 'e layer =
    TileLayer string
  | GeoJson string 'e
  | MarkerCluster string "marker list"
  | LayerControl

record ('f, 'e) folium_map =
  map_location :: "'f \<times> 'f"
  zoom_start :: int
  children :: "'e layer list"

definition create_interactive_map ::
  "'f float_arith \<Rightarrow> (('f, 'ed) graph \<Rightarrow> exn + 'e) \<Rightarrow> (string \<Rightarrow> string) \<Rightarrow>
   (geometry \<Rightarrow> exn + real \<times> real) \<Rightarrow>
   ('f, 'ed) graph \<Rightarrow> poi_row list \<Rightarrow> string \<Rightarrow> int \<Rightarrow>
   exn + ('f, 'e) folium_map \<times> string list" where
  "create_interactive_map fl graph_to_gdfs title centroid g pois_gdf location_name initial_zoom =
     (case calculate_graph_centroid fl g of
        Inl e \<Rightarrow> Inl e
      | Inr (center_lat, center_lon) \<Rightarrow>
     (case graph_to_gdfs g of
        Inl e \<Rightarrow> Inl e
      | Inr edges_gdf \<Rightarrow>
     (let st = poi_loop title centroid pois_gdf \<lparr>clusters = (\<lambda>c. []), printed = []\<rparr> in
      Inr (\<lparr>map_location = (center_lat, center_lon),
            zoom_start = initial_zoom,
            children =
              [TileLayer ''OpenStreetMap'',
               GeoJson ''Street Network'' edges_gdf,
               MarkerCluster (cluster_name marker_cluster_attractions)
                 (clusters st marker_cluster_attractions),
               MarkerCluster (cluster_name marker_cluster_cafes)
                 (clusters st marker_cluster_cafes),
               MarkerCluster (cluster_name marker_cluster_parks)
                 (clusters st marker_cluster_parks),
               MarkerCluster (cluster_name marker_cluster_other)
                 (clusters st marker_cluster_other),
               LayerControl]\<rparr>,
           printed st))))"

text \<open>The default zoom level of the signature.\<close>

definition default_initial_zoom :: int where
  "default_initial_zoom = 14"

subsection \<open>Reading a map document\<close>

text \<open>The cluster layers of a document, their names, and the markers under a name.\<close>

fun cluster_layers :: "'e layer list \<Rightarrow> (string \<times> marker list) list" where
  "cluster_layers [] = []"
| "cluster_layers (MarkerCluster n ms # ls) = (n, ms) # cluster_layers ls"
| "cluster_layers (l # ls) = cluster_layers ls"

fun layer_controls :: "'e layer list \<Rightarrow> nat" where
  "layer_controls [] = 0"
| "layer_controls (LayerControl # ls) = Suc (layer_controls ls)"
| "layer_controls (l # ls) = layer_controls ls"

definition marker_counts :: "('f, 'e) folium_map \<Rightarrow> (string \<times> nat) list" where
  "marker_counts m = map (\<lambda>(n, ms). (n, length ms)) (cluster_layers (children m))"

definition markers_in :: "string \<Rightarrow> ('f, 'e) folium_map \<Rightarrow> marker list" where
  "markers_in n m = concat (map snd (filter (\<lambda>(n', ms). n' = n) (cluster_layers (children m))))"

definition all_markers :: "('f, 'e) folium_map \<Rightarrow> marker list" where
  "all_markers m = concat (map snd (cluster_layers (children m)))"

subsection \<open>The loop as a comprehension\<close>

text \<open>
  What the loop leaves behind, written without state: the markers that the rows add to
  a cluster, in order, the lines printed for the rows whose processing raised, and the
  document assembled from them.
\<close>

definition row_markers ::
  "(string \<Rightarrow> string) \<Rightarrow> (geometry \<Rightarrow> exn + real \<times> real) \<Rightarrow> cluster \<Rightarrow> poi_row \<Rightarrow> marker list" where
  "row_markers title centroid k row =
     (if has_supported_geometry row then
        (case marker_for_row title centroid row of
           Inr (k', m) \<Rightarrow> if k' = k then [m] else []
         | Inl e \<Rightarrow> [])
      else [])"

definition row_lines ::
  "(string \<Rightarrow> string) \<Rightarrow> (geometry \<Rightarrow> exn + real \<times> real) \<Rightarrow> poi_row \<Rightarrow> string list" where
  "row_lines title centroid row =
     (if has_supported_geometry row then
        (case marker_for_row title centroid row of
           Inr km \<Rightarrow> []
         | Inl e \<Rightarrow> [skip_message row e])
      else [])"

fun markers_added ::
  "(string \<Rightarrow> string) \<Rightarrow> (geometry \<Rightarrow> exn + real \<times> real) \<Rightarrow> cluster \<Rightarrow> poi_row list \<Rightarrow> marker list" where
  "markers_added title centroid k [] = []"
| "markers_added title centroid k (row # rows) =
     row_markers title centroid k row @ markers_added title centroid k rows"

fun lines_printed ::
  "(string \<Rightarrow> string) \<Rightarrow> (geometry \<Rightarrow> exn + real \<times> real) \<Rightarrow> poi_row list \<Rightarrow> string list" where
  "lines_printed title centroid [] = []"
| "lines_printed title centroid (row # rows) = row_lines title centroid row @ lines_printed title centroid rows"

definition built_map ::
  "(string \<Rightarrow> string) \<Rightarrow> (geometry \<Rightarrow> exn + real \<times> real) \<Rightarrow> 'f \<times> 'f \<Rightarrow> 'e \<Rightarrow> poi_row list \<Rightarrow> int \<Rightarrow> ('f, 'e) folium_map" where
  "built_map title centroid center edges_gdf pois_gdf initial_zoom =
     \<lparr>map_location = center,
      zoom_start = initial_zoom,
      children =
        [TileLayer ''OpenStreetMap'',
         GeoJson ''Street Network'' edges_gdf,
         MarkerCluster ''Attractions'' (markers_added title centroid marker_cluster_attractions pois_gdf),
         MarkerCluster ''Cafes'' (markers_added title centroid marker_cluster_cafes pois_gdf),
         MarkerCluster ''Parks'' (markers_added title centroid marker_cluster_parks pois_gdf),
         MarkerCluster ''Other POIs'' (markers_added title centroid marker_cluster_other pois_gdf),
         LayerControl]\<rparr>"

subsection \<open>The specification's rules\<close>

text \<open>
  The rules in the specification's words, for comparison with the code: a tag equals a
  value; the bucket (cluster name, colour, icon) by first-match priority; the name of
  a row, with the default for a row that has none; a tag is populated when the row has
  a text for it; the first populated tag among tourism, amenity, leisure and shop.
\<close>

definition tag_equals :: "poi_row \<Rightarrow> string \<Rightarrow> string \<Rightarrow> bool" where
  "tag_equals row k v = (columns row k = Some (PyStr v))"

definition first_match_bucket :: "poi_row \<Rightarrow> string \<times> string \<times> string" where
  "first_match_bucket row =
     (if tag_equals row ''tourism'' ''attraction'' then (''Attractions'', ''red'', ''star'')
      else if tag_equals row ''amenity'' ''cafe'' then (''Cafes'', ''green'', ''coffee'')
      else if tag_equals row ''leisure'' ''park'' then (''Parks'', ''lightgreen'', ''tree'')
      else (''Other POIs'', ''blue'', ''info''))"

definition name_label :: "poi_row \<Rightarrow> string" where
  "name_label row =
     (case columns row ''name'' of Some (PyStr s) \<Rightarrow> s | _ \<Rightarrow> ''Unnamed POI'')"

definition populated :: "poi_row \<Rightarrow> string \<Rightarrow> bool" where
  "populated row k = (case columns row k of Some (PyStr s) \<Rightarrow> s \<noteq> [] | _ \<Rightarrow> False)"

definition first_populated_tag :: "poi_row \<Rightarrow> string option" where
  "first_populated_tag row = find (populated row) [''tourism'', ''amenity'', ''leisure'', ''shop'']"

subsection \<open>Example inputs\<close>

text \<open>
  The rows of the end-to-end scenario: a named attraction at a point, and a row whose
  geometry is null. The example edge conversion hands the edges on, and the example
  geometry library \<open>no_centroid\<close> has no centroid to offer.
\<close>

definition castle :: poi_row where
  "castle =
     \<lparr>geometry = Some (Point 13 47),
      columns = [''tourism'' \<mapsto> PyStr ''attraction'', ''name'' \<mapsto> PyStr ''Castle'']\<rparr>"

definition null_geometry_row :: poi_row where
  "null_geometry_row = \<lparr>geometry = None, columns = Map.empty\<rparr>"

definition edges_as_given :: "(real, unit) graph \<Rightarrow> exn + unit" where
  "edges_as_given g = Inr (edges g)"

definition no_centroid :: "geometry \<Rightarrow> exn + real \<times> real" where
  "no_centroid g = Inl (LibraryError ''no centroid'')"

text \<open>
  More rows, as they come out of a frame whose columns are name, tourism, amenity,
  leisure and shop: an attraction that is also a cafe; a cafe, which has no tourism tag,
  so that its tourism column holds NaN; a museum without a name, so that its name
  column holds NaN; a park drawn as a rectangle, with a geometry library that knows
  the centroid of that rectangle; a fast-food place that also sells bread.
\<close>

definition attraction_cafe :: poi_row where
  "attraction_cafe =
     \<lparr>geometry = Some (Point 13 47),
      columns = [''tourism'' \<mapsto> PyStr ''attraction'', ''amenity'' \<mapsto> PyStr ''cafe'',
                 ''name'' \<mapsto> PyStr ''Burgcafe'']\<rparr>"

definition cafe_without_tourism :: poi_row where
  "cafe_without_tourism =
     \<lparr>geometry = Some (Point 13 47),
      columns = [''tourism'' \<mapsto> PyNaN, ''amenity'' \<mapsto> PyStr ''cafe'',
                 ''name'' \<mapsto> PyStr ''Tomaselli'']\<rparr>"

definition unnamed_museum :: poi_row where
  "unnamed_museum =
     \<lparr>geometry = Some (Point 13 47),
      columns = [''tourism'' \<mapsto> PyStr ''museum'', ''name'' \<mapsto> PyNaN]\<rparr>"

definition rectangle :: geometry where
  "rectangle = Polygon [(0, 0), (4, 0), (4, 2), (0, 2), (0, 0)]"

definition rectangle_park :: poi_row where
  "rectangle_park = \<lparr>geometry = Some rectangle, columns = [''leisure'' \<mapsto> PyStr ''park'']\<rparr>"


definition fast_food :: poi_row where
  "fast_food =
     \<lparr>geometry = Some (Point 13 47),
      columns = [''amenity'' \<mapsto> PyStr ''fast_food'', ''shop'' \<mapsto> PyStr ''bakery'',
                 ''name'' \<mapsto> PyStr ''Joe'']\<rparr>"

text \<open>
  For the examples, \<^verbatim>\<open>str.title\<close> as it works on ASCII text: a letter goes to upper case
  after a character that is no letter, and to lower case after a letter. Text with other
  characters is outside this example function.
\<close>

definition lower_case :: string where
  "lower_case = ''abcdefghijklmnopqrstuvwxyz''"

definition upper_case :: string where
  "upper_case = ''ABCDEFGHIJKLMNOPQRSTUVWXYZ''"

definition is_lower :: "char \<Rightarrow> bool" where
  "is_lower c = (c \<in> set lower_case)"

definition is_upper :: "char \<Rightarrow> bool" where
  "is_upper c = (c \<in> set upper_case)"

definition to_upper :: "char \<Rightarrow> char" where
  "to_upper c = (case map_of (zip lower_case upper_case) c of None \<Rightarrow> c | Some u \<Rightarrow> u)"

definition to_lower :: "char \<Rightarrow> char" where
  "to_lower c = (case map_of (zip upper_case lower_case) c of None \<Rightarrow> c | Some l \<Rightarrow> l)"

fun ascii_title_from :: "bool \<Rightarrow> string \<Rightarrow> string" where
  "ascii_title_from previous_is_cased [] = []"
| "ascii_title_from previous_is_cased (c # cs) =
     (if previous_is_cased then to_lower c else to_upper c) #
       ascii_title_from (is_lower c \<or> is_upper c) cs"

definition ascii_title :: "string \<Rightarrow> string" where
  "ascii_title s = ascii_title_from False s"

section \<open>Properties of the centroid\<close>

lemma node_values_present:
  "list_all (\<lambda>(node, data). data k \<noteq> None) ns \<Longrightarrow>
   node_values k ns = Inr (map (\<lambda>(node, data). the (data k)) ns)"
  by (induction ns) auto

lemma node_values_missing:
  "\<not> list_all (\<lambda>(node, data). data k \<noteq> None) ns \<Longrightarrow> node_values k ns = Inl (KeyError k)"
  by (induction ns) (auto split: option.splits sum.splits)

text \<open>
  On a graph with at least one node, all of whose nodes carry both coordinates, the
  result is the pair of the runtime's sum of the \<open>y\<close> values divided by their number and
  of the runtime's sum of the \<open>x\<close> values divided by their number.
\<close>

lemma calculate_graph_centroid_value:
  assumes "nodes g \<noteq> []" and "has_coordinates g"
  shows "calculate_graph_centroid fl g =
           Inr (float_div fl (float_sum fl (coordinates ''y'' g)) (length (nodes g)),
                float_div fl (float_sum fl (coordinates ''x'' g)) (length (nodes g)))"
proof -
  have all_x: "list_all (\<lambda>(node, data). data ''x'' \<noteq> None) (nodes g)"
    and all_y: "list_all (\<lambda>(node, data). data ''y'' \<noteq> None) (nodes g)"
    using assms(2) by (auto simp: has_coordinates_def list_all_iff)
  have xs: "node_values ''x'' (nodes g) = Inr (coordinates ''x'' g)"
    using node_values_present [OF all_x] by (simp add: coordinates_def)
  have ys: "node_values ''y'' (nodes g) = Inr (coordinates ''y'' g)"
    using node_values_present [OF all_y] by (simp add: coordinates_def)
  show ?thesis
    using assms(1) by (simp add: calculate_graph_centroid_def xs ys py_div_def coordinates_def)
qed

lemma calculate_graph_centroid_returns:
  "(\<exists>c. calculate_graph_centroid fl g = Inr c) \<longleftrightarrow> nodes g \<noteq> [] \<and> has_coordinates g"
proof
  assume "\<exists>c. calculate_graph_centroid fl g = Inr c"
  then obtain c where c: "calculate_graph_centroid fl g = Inr c" ..
  then have n: "nodes g \<noteq> []"
    by (auto simp: calculate_graph_centroid_def)
  have x: "list_all (\<lambda>(node, data). data ''x'' \<noteq> None) (nodes g)"
  proof (rule ccontr)
    assume "\<not> list_all (\<lambda>(node, data). data ''x'' \<noteq> None) (nodes g)"
    then have "node_values ''x'' (nodes g) = Inl (KeyError ''x'')"
      by (rule node_values_missing)
    then show False
      using c n by (simp add: calculate_graph_centroid_def)
  qed
  have y: "list_all (\<lambda>(node, data). data ''y'' \<noteq> None) (nodes g)"
  proof (rule ccontr)
    assume "\<not> list_all (\<lambda>(node, data). data ''y'' \<noteq> None) (nodes g)"
    then have "node_values ''y'' (nodes g) = Inl (KeyError ''y'')"
      by (rule node_values_missing)
    then show False
      using c n by (simp add: calculate_graph_centroid_def split: sum.splits)
  qed
  from x y have "has_coordinates g"
    by (auto simp: has_coordinates_def list_all_iff)
  with n show "nodes g \<noteq> [] \<and> has_coordinates g" ..
next
  assume "nodes g \<noteq> [] \<and> has_coordinates g"
  then show "\<exists>c. calculate_graph_centroid fl g = Inr c"
    using calculate_graph_centroid_value [of g fl] by simp
qed

text \<open>
  So the function returns exactly on the graphs with at least one node whose nodes all
  carry both coordinates; on the others it raises \<^verbatim>\<open>ValueError\<close> (no node) or
  \<^verbatim>\<open>KeyError\<close> (a node without the coordinate). How far the result is from the
  arithmetic mean of the coordinates is a matter of the rounding of the runtime's
  arithmetic: with the arithmetic that does not round, it is the mean.
\<close>

lemma calculate_graph_centroid_exact:
  assumes "nodes g \<noteq> []" and "has_coordinates g"
  shows "calculate_graph_centroid exact_arithmetic g =
           Inr (sum_list (coordinates ''y'' g) / real (length (coordinates ''y'' g)),
                sum_list (coordinates ''x'' g) / real (length (coordinates ''x'' g)))"
  using calculate_graph_centroid_value [OF assms, of exact_arithmetic]
  by (simp add: exact_arithmetic_def coordinates_def)

lemma three_nodes_centroid:
  "calculate_graph_centroid fl three_nodes = Inr (three_nodes_centre fl)"
  by (simp add: calculate_graph_centroid_def three_nodes_def py_div_def three_nodes_centre_def
      numeral_3_eq_3)

lemma three_nodes_centre_exact: "three_nodes_centre exact_arithmetic = (20, 30)"
  by (simp add: three_nodes_centre_def exact_arithmetic_def)

text \<open>
  C2. On a graph whose node set is empty, \<open>calculate_graph_centroid\<close> raises
  \<^verbatim>\<open>ValueError\<close>, the invalid-argument error, and returns no value.
\<close>

theorem calculate_graph_centroid_empty:
  "nodes g = [] \<Longrightarrow>
   calculate_graph_centroid fl g =
     Inl (ValueError ''Graph has no nodes to calculate a centroid.'')"
  by (simp add: calculate_graph_centroid_def)

theorem calculate_graph_centroid_empty_witness:
  "nodes (\<lparr>nodes = [], edges = ()\<rparr> :: (real, unit) graph) = [] \<and>
   calculate_graph_centroid exact_arithmetic (\<lparr>nodes = [], edges = ()\<rparr> :: (real, unit) graph) =
     Inl (ValueError ''Graph has no nodes to calculate a centroid.'')"
  using calculate_graph_centroid_empty
    [of "\<lparr>nodes = [], edges = ()\<rparr> :: (real, unit) graph" exact_arithmetic]
  by simp

section \<open>Properties of the POI fetcher\<close>

lemma get_points_of_interest_message:
  "get_points_of_interest features_from_place place_name tags = Inl e \<Longrightarrow>
   e = ValueError (could_not_retrieve_message place_name)"
  by (auto simp: get_points_of_interest_def split: sum.splits)

text \<open>
  C3. When the query returns zero results, the \<^verbatim>\<open>try\<close> raises \<^verbatim>\<open>ValueError\<close> with the
  message "No POIs found for 'Atlantis' with the specified tags.", but the handler of
  the same \<^verbatim>\<open>try\<close> catches it: the caller receives a \<^verbatim>\<open>ValueError\<close> whose message names
  the place and is the very message it receives after a failure of the query itself.
\<close>

theorem get_points_of_interest_zero_results:
  "get_points_of_interest (\<lambda>place tags. Inr []) ''Atlantis'' [(''amenity'', ''cafe'')] =
     Inl (ValueError (''Could not retrieve POIs for '' @ apostrophe @ ''Atlantis'' @ apostrophe @
                      ''. Check tags or place name.'')) \<and>
   get_points_of_interest (\<lambda>place tags. Inl (LibraryError ''connection refused''))
       ''Atlantis'' [(''amenity'', ''cafe'')] =
     get_points_of_interest (\<lambda>place tags. Inr []) ''Atlantis'' [(''amenity'', ''cafe'')] \<and>
   get_points_of_interest_try (\<lambda>place tags. Inr []) ''Atlantis'' [(''amenity'', ''cafe'')] =
     Inl (ValueError (''No POIs found for '' @ apostrophe @ ''Atlantis'' @ apostrophe @
                      '' with the specified tags.''))"
  by (simp add: get_points_of_interest_def get_points_of_interest_try_def
      could_not_retrieve_message_def no_pois_message_def)

section \<open>Properties of the loop\<close>

lemma process_row_clusters:
  "clusters (process_row title centroid row st) k = clusters st k @ row_markers title centroid k row"
  by (auto simp: process_row_def row_markers_def split: sum.splits)

lemma process_row_printed:
  "printed (process_row title centroid row st) = printed st @ row_lines title centroid row"
  by (auto simp: process_row_def row_lines_def split: sum.splits)

lemma poi_loop_clusters:
  "clusters (poi_loop title centroid rows st) k = clusters st k @ markers_added title centroid k rows"
proof (induction rows arbitrary: st)
  case Nil
  then show ?case by simp
next
  case (Cons row rows)
  have "clusters (poi_loop title centroid (row # rows) st) k =
          clusters (process_row title centroid row st) k @ markers_added title centroid k rows"
    using Cons.IH by simp
  also have "\<dots> = clusters st k @ row_markers title centroid k row @ markers_added title centroid k rows"
    by (simp add: process_row_clusters)
  finally show ?case by simp
qed

lemma poi_loop_printed:
  "printed (poi_loop title centroid rows st) = printed st @ lines_printed title centroid rows"
proof (induction rows arbitrary: st)
  case Nil
  then show ?case by simp
next
  case (Cons row rows)
  have "printed (poi_loop title centroid (row # rows) st) =
          printed (process_row title centroid row st) @ lines_printed title centroid rows"
    using Cons.IH by simp
  also have "\<dots> = printed st @ row_lines title centroid row @ lines_printed title centroid rows"
    by (simp add: process_row_printed)
  finally show ?case by simp
qed

lemma markers_added_append:
  "markers_added title centroid k (xs @ ys) = markers_added title centroid k xs @ markers_added title centroid k ys"
  by (induction xs) simp_all

lemma lines_printed_append:
  "lines_printed title centroid (xs @ ys) = lines_printed title centroid xs @ lines_printed title centroid ys"
  by (induction xs) simp_all

lemma create_interactive_map_returns:
  "create_interactive_map fl graph_to_gdfs title centroid g pois_gdf location_name initial_zoom = Inr (m, out)
   \<longleftrightarrow> (\<exists>center edges_gdf.
          calculate_graph_centroid fl g = Inr center \<and> graph_to_gdfs g = Inr edges_gdf \<and>
          m = built_map title centroid center edges_gdf pois_gdf initial_zoom \<and>
          out = lines_printed title centroid pois_gdf)"
  by (auto simp: create_interactive_map_def built_map_def poi_loop_clusters poi_loop_printed Let_def
      split: sum.splits prod.splits)

lemma create_interactive_map_raises:
  "create_interactive_map fl graph_to_gdfs title centroid g pois_gdf location_name initial_zoom = Inl e
   \<longleftrightarrow> (calculate_graph_centroid fl g = Inl e \<or>
        (\<exists>center. calculate_graph_centroid fl g = Inr center \<and> graph_to_gdfs g = Inl e))"
  by (auto simp: create_interactive_map_def Let_def split: sum.splits prod.splits)

lemma poi_loop_append:
  "poi_loop title centroid (xs @ ys) st = poi_loop title centroid ys (poi_loop title centroid xs st)"
  by (induction xs arbitrary: st) simp_all

section \<open>Properties of a row\<close>

lemma in_and_equals_tag_equals: "in_and_equals row k v = tag_equals row k v"
  by (auto simp: in_and_equals_def tag_equals_def)

lemma marker_for_row_InrD:
  assumes "marker_for_row title centroid row = Inr (k, mk)"
  obtains g lon lat t where "geometry row = Some g" and "lon_lat centroid g = Inr (lon, lat)"
    and "popup_text title row = Inr t"
    and "k = snd (snd (icon_and_cluster row))"
    and "mk = \<lparr>location = (lat, lon), popup = t, popup_max_width = 300,
                icon_color = fst (icon_and_cluster row),
                icon_name = fst (snd (icon_and_cluster row)), icon_prefix = ''fa''\<rparr>"
  using assms
  by (auto simp: marker_for_row_def split: option.splits sum.splits prod.splits)

lemma icon_and_cluster_bucket:
  "(cluster_name (snd (snd (icon_and_cluster row))), fst (icon_and_cluster row),
    fst (snd (icon_and_cluster row))) = first_match_bucket row"
  by (auto simp: icon_and_cluster_def first_match_bucket_def in_and_equals_tag_equals)

lemma row_markers_Inr:
  "has_supported_geometry row \<Longrightarrow> marker_for_row title centroid row = Inr (k, mk) \<Longrightarrow>
   row_markers title centroid k row = [mk]"
  by (simp add: row_markers_def)

lemma row_markers_Inl:
  "marker_for_row title centroid row = Inl e \<Longrightarrow> row_markers title centroid k row = []"
  by (simp add: row_markers_def)

lemma row_lines_Inl:
  "has_supported_geometry row \<Longrightarrow> marker_for_row title centroid row = Inl e \<Longrightarrow>
   row_lines title centroid row = [skip_message row e]"
  by (simp add: row_lines_def)

lemma markers_added_member:
  "row \<in> set rows \<Longrightarrow> has_supported_geometry row \<Longrightarrow>
   marker_for_row title centroid row = Inr (k, mk) \<Longrightarrow>
   mk \<in> set (markers_added title centroid k rows)"
  by (induction rows) (auto simp: row_markers_Inr)

lemma markers_in_built_map:
  "markers_in (cluster_name k) (built_map title centroid center edges_gdf rows zoom) =
     markers_added title centroid k rows"
  by (cases k) (simp_all add: markers_in_def built_map_def)

lemma built_map_cong:
  "(\<And>k. markers_added title centroid k rows = markers_added title centroid k rows') \<Longrightarrow>
   built_map title centroid center edges_gdf rows zoom = built_map title centroid center edges_gdf rows' zoom"
  by (simp add: built_map_def)

lemma all_markers_built_map:
  "all_markers (built_map title centroid center edges_gdf rows zoom) =
     markers_added title centroid marker_cluster_attractions rows @
     markers_added title centroid marker_cluster_cafes rows @
     markers_added title centroid marker_cluster_parks rows @
     markers_added title centroid marker_cluster_other rows"
  by (simp add: all_markers_def built_map_def)

lemmas row_eval =
  marker_for_row_def lon_lat_def popup_text_def row_get_def item_type_text_def row_item_def
  icon_and_cluster_def in_and_equals_def ascii_title_def replace_underscores_def to_upper_def
  to_lower_def is_lower_def is_upper_def lower_case_def upper_case_def
  has_supported_geometry_def

lemma castle_marker:
  "marker_for_row title centroid castle =
     Inr (marker_cluster_attractions,
          \<lparr>location = (47, 13), popup = ''CastleType: '' @ title ''attraction'',
           popup_max_width = 300,
           icon_color = ''red'', icon_name = ''star'', icon_prefix = ''fa''\<rparr>)"
  by (simp add: castle_def row_eval)

lemma attraction_cafe_marker:
  "marker_for_row title centroid attraction_cafe =
     Inr (marker_cluster_attractions,
          \<lparr>location = (47, 13), popup = ''BurgcafeType: '' @ title ''attraction'',
           popup_max_width = 300,
           icon_color = ''red'', icon_name = ''star'', icon_prefix = ''fa''\<rparr>)"
  by (simp add: attraction_cafe_def row_eval)

lemma cafe_without_tourism_raises:
  "marker_for_row title centroid cafe_without_tourism =
     Inl (AttributeError (apostrophe @ ''float'' @ apostrophe @
            '' object has no attribute '' @ apostrophe @ ''replace'' @ apostrophe))"
  by (simp add: cafe_without_tourism_def row_eval)

lemma unnamed_museum_marker:
  "marker_for_row title centroid unnamed_museum =
     Inr (marker_cluster_other,
          \<lparr>location = (47, 13), popup = ''nanType: '' @ title ''museum'',
           popup_max_width = 300,
           icon_color = ''blue'', icon_name = ''info'', icon_prefix = ''fa''\<rparr>)"
  by (simp add: unnamed_museum_def row_eval)


lemma fast_food_marker:
  "marker_for_row ascii_title centroid fast_food =
     Inr (marker_cluster_other,
          \<lparr>location = (47, 13), popup = ''JoeType: Fast Food'', popup_max_width = 300,
           icon_color = ''blue'', icon_name = ''info'', icon_prefix = ''fa''\<rparr>)"
  by (simp add: fast_food_def row_eval)

lemma supported_examples:
  "has_supported_geometry castle" "has_supported_geometry attraction_cafe"
  "has_supported_geometry cafe_without_tourism" "has_supported_geometry rectangle_park"
  "has_supported_geometry fast_food" "\<not> has_supported_geometry null_geometry_row"
  "has_supported_geometry unnamed_museum"
  by (simp_all add: has_supported_geometry_def castle_def attraction_cafe_def
      cafe_without_tourism_def rectangle_park_def rectangle_def fast_food_def
      null_geometry_row_def unnamed_museum_def)

lemma scenario_map:
  "create_interactive_map fl edges_as_given title centroid three_nodes
     [castle, null_geometry_row] location_name zoom =
   Inr (built_map title centroid (three_nodes_centre fl) () [castle, null_geometry_row] zoom, [])"
  by (simp add: create_interactive_map_returns three_nodes_centroid edges_as_given_def
      row_lines_def castle_marker supported_examples)

lemma scenario_markers:
  "markers_added title centroid k [castle, null_geometry_row] =
     (if k = marker_cluster_attractions then
        [\<lparr>location = (47, 13), popup = ''CastleType: '' @ title ''attraction'',
          popup_max_width = 300,
          icon_color = ''red'', icon_name = ''star'', icon_prefix = ''fa''\<rparr>]
      else [])"
  by (simp add: row_markers_def castle_marker supported_examples)

text \<open>
  The label of the code against the rules: a populated tag is truthy, a truthy tag whose
  text can be formatted is populated, and the code's name is the rule's name whenever
  the row has a text as its name or no name entry at all.
\<close>

lemma populated_truthy: "populated row k \<Longrightarrow> truthy (row_get row k PyNone)"
  by (auto simp: populated_def row_get_def split: option.splits py_value.splits)

lemma popup_text_tagged:
  assumes tr: "truthy (row_get row k PyNone)"
    and step: "popup_text title row =
      (case item_type_text title row k of Inl e \<Rightarrow> Inl e | Inr ty \<Rightarrow> Inr (n @ ty))"
    and res: "popup_text title row = Inr t"
  shows "populated row k \<and>
         (\<exists>s. columns row k = Some (PyStr s) \<and> s \<noteq> [] \<and>
              t = n @ ''Type: '' @ title (replace_underscores s))"
proof -
  obtain ty where ty: "item_type_text title row k = Inr ty" and t: "t = n @ ty"
    using res step by (auto split: sum.splits)
  obtain v where v: "columns row k = Some v"
    using ty by (auto simp: item_type_text_def row_item_def split: option.splits)
  obtain s where s: "v = PyStr s" and ty': "ty = ''Type: '' @ title (replace_underscores s)"
    using ty v by (cases v) (auto simp: item_type_text_def row_item_def)
  have "s \<noteq> []"
    using tr v s by (simp add: row_get_def)
  then show ?thesis
    using v s ty' t by (simp add: populated_def)
qed

lemma popup_text_label:
  assumes "popup_text title row = Inr t"
  shows "(first_populated_tag row = None \<longrightarrow>
            t = py_str (row_get row ''name'' (PyStr ''Unnamed POI''))) \<and>
         (\<forall>key. first_populated_tag row = Some key \<longrightarrow>
            (\<exists>s. columns row key = Some (PyStr s) \<and> s \<noteq> [] \<and>
                 t = py_str (row_get row ''name'' (PyStr ''Unnamed POI'')) @ ''Type: '' @
                     title (replace_underscores s)))"
proof (cases "truthy (row_get row ''tourism'' PyNone)")
  case True
  then have "popup_text title row = (case item_type_text title row ''tourism'' of
      Inl e \<Rightarrow> Inl e
    | Inr ty \<Rightarrow> Inr (py_str (row_get row ''name'' (PyStr ''Unnamed POI'')) @ ty))"
    by (simp add: popup_text_def)
  from popup_text_tagged [OF True this assms] show ?thesis
    by (simp add: first_populated_tag_def)
next
  case False
  then have no_tourism: "\<not> populated row ''tourism''"
    using populated_truthy by blast
  show ?thesis
  proof (cases "truthy (row_get row ''amenity'' PyNone)")
    case True
    then have "popup_text title row = (case item_type_text title row ''amenity'' of
        Inl e \<Rightarrow> Inl e
      | Inr ty \<Rightarrow> Inr (py_str (row_get row ''name'' (PyStr ''Unnamed POI'')) @ ty))"
      using \<open>\<not> truthy (row_get row ''tourism'' PyNone)\<close> by (simp add: popup_text_def)
    from popup_text_tagged [OF True this assms] no_tourism show ?thesis
      by (simp add: first_populated_tag_def)
  next
    case no_a: False
    then have no_amenity: "\<not> populated row ''amenity''"
      using populated_truthy by blast
    show ?thesis
    proof (cases "truthy (row_get row ''leisure'' PyNone)")
      case True
      then have "popup_text title row = (case item_type_text title row ''leisure'' of
          Inl e \<Rightarrow> Inl e
        | Inr ty \<Rightarrow> Inr (py_str (row_get row ''name'' (PyStr ''Unnamed POI'')) @ ty))"
        using \<open>\<not> truthy (row_get row ''tourism'' PyNone)\<close> no_a
        by (simp add: popup_text_def)
      from popup_text_tagged [OF True this assms] no_tourism no_amenity show ?thesis
        by (simp add: first_populated_tag_def)
    next
      case no_l: False
      then have no_leisure: "\<not> populated row ''leisure''"
        using populated_truthy by blast
      show ?thesis
      proof (cases "truthy (row_get row ''shop'' PyNone)")
        case True
        then have "popup_text title row = (case item_type_text title row ''shop'' of
            Inl e \<Rightarrow> Inl e
          | Inr ty \<Rightarrow> Inr (py_str (row_get row ''name'' (PyStr ''Unnamed POI'')) @ ty))"
          using \<open>\<not> truthy (row_get row ''tourism'' PyNone)\<close> no_a no_l
          by (simp add: popup_text_def)
        from popup_text_tagged [OF True this assms] no_tourism no_amenity no_leisure
        show ?thesis
          by (simp add: first_populated_tag_def)
      next
        case no_s: False
        then have no_shop: "\<not> populated row ''shop''"
          using populated_truthy by blast
        have "popup_text title row = Inr (py_str (row_get row ''name'' (PyStr ''Unnamed POI'')))"
          using \<open>\<not> truthy (row_get row ''tourism'' PyNone)\<close> no_a no_l no_s
          by (simp add: popup_text_def)
        then show ?thesis
          using assms no_tourism no_amenity no_leisure no_shop
          by (simp add: first_populated_tag_def)
      qed
    qed
  qed
qed

lemma name_label_get:
  "columns row ''name'' = None \<or> (\<exists>s. columns row ''name'' = Some (PyStr s)) \<Longrightarrow>
   py_str (row_get row ''name'' (PyStr ''Unnamed POI'')) = name_label row"
  by (auto simp: name_label_def row_get_def)

section \<open>Properties of the map builder\<close>

text \<open>
  C5. A row whose geometry is absent (null), or whose geometry type is none of Point,
  Polygon and MultiPolygon, leaves the state of the loop as it is, and the call returns
  or raises exactly as it does on the collection without that row: no marker is added
  for the row and nothing is raised for it.
\<close>

theorem unsupported_geometry_excluded:
  assumes "geometry row = None \<or>
           (\<exists>g. geometry row = Some g \<and>
                geom_type g \<notin> {''Point'', ''Polygon'', ''MultiPolygon''})"
  shows "process_row title centroid row st = st \<and>
         create_interactive_map fl graph_to_gdfs title centroid g (before @ row # after) location_name zoom =
         create_interactive_map fl graph_to_gdfs title centroid g (before @ after) location_name zoom"
proof -
  have skip: "\<not> has_supported_geometry row"
    using assms by (auto simp: has_supported_geometry_def)
  then have same: "process_row title centroid row st' = st'" for st'
    by (simp add: process_row_def)
  have eq: "poi_loop title centroid (before @ row # after) st' = poi_loop title centroid (before @ after) st'"
    for st' by (simp add: poi_loop_append same)
  have "create_interactive_map fl graph_to_gdfs title centroid g (before @ row # after) location_name zoom =
        create_interactive_map fl graph_to_gdfs title centroid g (before @ after) location_name zoom"
    by (simp add: create_interactive_map_def eq split: sum.split prod.split)
  with same show ?thesis by simp
qed

theorem unsupported_geometry_excluded_witness:
  "(geometry null_geometry_row = None \<or>
    (\<exists>g. geometry null_geometry_row = Some g \<and>
         geom_type g \<notin> {''Point'', ''Polygon'', ''MultiPolygon''})) \<and>
   process_row ascii_title no_centroid null_geometry_row \<lparr>clusters = (\<lambda>c. []), printed = []\<rparr> =
     \<lparr>clusters = (\<lambda>c. []), printed = []\<rparr> \<and>
   create_interactive_map exact_arithmetic edges_as_given ascii_title no_centroid three_nodes
       ([castle] @ null_geometry_row # []) ''Salzburg'' 14 =
   create_interactive_map exact_arithmetic edges_as_given ascii_title no_centroid three_nodes ([castle] @ []) ''Salzburg'' 14"
proof -
  have h: "geometry null_geometry_row = None \<or>
    (\<exists>g. geometry null_geometry_row = Some g \<and>
         geom_type g \<notin> {''Point'', ''Polygon'', ''MultiPolygon''})"
    by (simp add: null_geometry_row_def)
  show ?thesis
    using h unsupported_geometry_excluded [OF h] by blast
qed

text \<open>
  C10. Whenever \<open>create_interactive_map\<close> returns, the document holds exactly four
  marker-cluster layers, named Attractions, Cafes, Parks and Other POIs in this order,
  and one layer control, whatever the rows contribute.
\<close>

theorem four_cluster_layers:
  assumes "create_interactive_map fl graph_to_gdfs title centroid g pois_gdf location_name zoom = Inr (m, out)"
  shows "map fst (cluster_layers (children m)) = [''Attractions'', ''Cafes'', ''Parks'', ''Other POIs''] \<and>
         layer_controls (children m) = 1"
proof -
  obtain center edges_gdf where "m = built_map title centroid center edges_gdf pois_gdf zoom"
    using assms by (auto simp: create_interactive_map_returns)
  then show ?thesis
    by (simp add: built_map_def)
qed

theorem four_cluster_layers_witness:
  "create_interactive_map exact_arithmetic edges_as_given ascii_title no_centroid three_nodes [] ''Salzburg'' 14 =
     Inr (built_map ascii_title no_centroid (20, 30) () [] 14, []) \<and>
   cluster_layers (children (built_map ascii_title no_centroid (20, 30) () [] 14 :: (real, unit) folium_map)) =
     [(''Attractions'', []), (''Cafes'', []), (''Parks'', []), (''Other POIs'', [])] \<and>
   layer_controls (children (built_map ascii_title no_centroid (20, 30) () [] 14 :: (real, unit) folium_map)) = 1"
proof -
  have r: "create_interactive_map exact_arithmetic edges_as_given ascii_title no_centroid three_nodes [] ''Salzburg'' 14 =
     Inr (built_map ascii_title no_centroid (20, 30) () [] 14, [])"
    by (simp add: create_interactive_map_returns three_nodes_centroid three_nodes_centre_exact
        edges_as_given_def)
  show ?thesis
    using r four_cluster_layers [OF r] by (simp add: built_map_def)
qed

text \<open>
  A row that gets a marker is classified by first-match priority: its marker carries the
  colour and the icon of its bucket, is added to the cluster of that bucket and is found
  under that name in the returned document; a row tagged both tourism=attraction and
  amenity=cafe is an attraction.
\<close>

lemma marked_row_first_match:
  assumes "has_supported_geometry row" and "marker_for_row title centroid row = Inr (k, mk)"
  shows "(cluster_name k, icon_color mk, icon_name mk) = first_match_bucket row \<and>
         clusters (process_row title centroid row st) = (clusters st)(k := clusters st k @ [mk]) \<and>
         (tag_equals row ''tourism'' ''attraction'' \<and> tag_equals row ''amenity'' ''cafe'' \<longrightarrow>
            k = marker_cluster_attractions \<and> k \<noteq> marker_cluster_cafes) \<and>
         (\<forall>rows m out. row \<in> set rows \<and>
            create_interactive_map fl graph_to_gdfs title centroid g rows location_name zoom = Inr (m, out) \<longrightarrow>
            mk \<in> set (markers_in (cluster_name k) m))"
proof -
  obtain g' lon lat t where k: "k = snd (snd (icon_and_cluster row))"
    and mk: "mk = \<lparr>location = (lat, lon), popup = t, popup_max_width = 300,
                icon_color = fst (icon_and_cluster row),
                icon_name = fst (snd (icon_and_cluster row)), icon_prefix = ''fa''\<rparr>"
    using assms(2) by (rule marker_for_row_InrD)
  have bucket: "(cluster_name k, icon_color mk, icon_name mk) = first_match_bucket row"
    using icon_and_cluster_bucket [of row] by (simp add: k mk)
  have added: "clusters (process_row title centroid row st) = (clusters st)(k := clusters st k @ [mk])"
    using assms by (simp add: process_row_def)
  have both: "tag_equals row ''tourism'' ''attraction'' \<and> tag_equals row ''amenity'' ''cafe'' \<longrightarrow>
            k = marker_cluster_attractions \<and> k \<noteq> marker_cluster_cafes"
    by (simp add: k icon_and_cluster_def in_and_equals_tag_equals)
  have in_map: "mk \<in> set (markers_in (cluster_name k) m)"
    if mem: "row \<in> set rows"
      and ret: "create_interactive_map fl graph_to_gdfs title centroid g rows location_name zoom = Inr (m, out)"
    for rows m out
  proof -
    obtain center edges_gdf where "m = built_map title centroid center edges_gdf rows zoom"
      using ret by (auto simp: create_interactive_map_returns)
    then show ?thesis
      using markers_added_member [OF mem assms] by (simp add: markers_in_built_map)
  qed
  show ?thesis
    using bucket added both in_map by blast
qed


text \<open>
  C4. The cafe \<open>cafe_without_tourism\<close> has no tourism tag and amenity equal to cafe:
  its bucket by first-match priority is Cafes, with a green coffee icon. The code
  never classifies it: the NaN of its tourism column is truthy, the label is built
  from it, \<^verbatim>\<open>replace\<close> raises, and the row is skipped with a printed line. The
  document of the collection that holds this row alone has no marker, in Cafes or in
  any other cluster.
\<close>

theorem cafe_without_tourism_not_classified:
  "first_match_bucket cafe_without_tourism = (''Cafes'', ''green'', ''coffee'') \<and>
   has_supported_geometry cafe_without_tourism \<and>
   marker_for_row title centroid cafe_without_tourism =
     Inl (AttributeError (apostrophe @ ''float'' @ apostrophe @
            '' object has no attribute '' @ apostrophe @ ''replace'' @ apostrophe)) \<and>
   create_interactive_map fl edges_as_given title centroid three_nodes [cafe_without_tourism]
       location_name zoom =
     Inr (built_map title centroid (three_nodes_centre fl) () [cafe_without_tourism] zoom,
          [skip_message cafe_without_tourism
             (AttributeError (apostrophe @ ''float'' @ apostrophe @
                '' object has no attribute '' @ apostrophe @ ''replace'' @ apostrophe))]) \<and>
   markers_in ''Cafes''
     (built_map title centroid (three_nodes_centre fl) () [cafe_without_tourism] zoom) = [] \<and>
   all_markers
     (built_map title centroid (three_nodes_centre fl) () [cafe_without_tourism] zoom) = []"
proof -
  have bucket: "first_match_bucket cafe_without_tourism = (''Cafes'', ''green'', ''coffee'')"
    by (simp add: first_match_bucket_def tag_equals_def cafe_without_tourism_def)
  have none: "markers_added title centroid k [cafe_without_tourism] = []" for k
    by (simp add: row_markers_Inl cafe_without_tourism_raises)
  have lines: "lines_printed title centroid [cafe_without_tourism] =
      [skip_message cafe_without_tourism
         (AttributeError (apostrophe @ ''float'' @ apostrophe @
            '' object has no attribute '' @ apostrophe @ ''replace'' @ apostrophe))]"
    by (simp add: row_lines_Inl supported_examples cafe_without_tourism_raises)
  have ret: "create_interactive_map fl edges_as_given title centroid three_nodes
      [cafe_without_tourism] location_name zoom =
     Inr (built_map title centroid (three_nodes_centre fl) () [cafe_without_tourism] zoom,
          [skip_message cafe_without_tourism
             (AttributeError (apostrophe @ ''float'' @ apostrophe @
                '' object has no attribute '' @ apostrophe @ ''replace'' @ apostrophe))])"
    by (simp add: create_interactive_map_returns three_nodes_centroid edges_as_given_def lines
        del: lines_printed.simps)
  have cafes: "markers_in ''Cafes''
     (built_map title centroid (three_nodes_centre fl) () [cafe_without_tourism] zoom) = []"
    using markers_in_built_map [of marker_cluster_cafes title centroid "three_nodes_centre fl"
        "()" "[cafe_without_tourism]" zoom]
    by (simp add: none del: markers_added.simps)
  have every: "all_markers
     (built_map title centroid (three_nodes_centre fl) () [cafe_without_tourism] zoom) = []"
    by (simp add: all_markers_built_map none del: markers_added.simps)
  show ?thesis
    using bucket supported_examples(3) cafe_without_tourism_raises [of title centroid] ret cafes
      every
    by simp
qed

text \<open>
  C6. When the processing of a row raises, the exception is caught: the loop prints one
  line with the name of the row and the text of the exception, adds no marker, and goes
  on. The call returns the same document as on the collection without that row, with
  that line among the printed ones, and it raises only if it raises without the row. On
  the collection of the scenario, a named attraction and a row with null geometry, the
  document has exactly one marker, in the Attractions cluster, and nothing is printed.
\<close>

theorem failing_row_skipped:
  assumes "has_supported_geometry row" and "marker_for_row title centroid row = Inl e"
  shows "process_row title centroid row st = st\<lparr>printed := printed st @ [skip_message row e]\<rparr> \<and>
         (\<forall>n. columns row ''name'' = Some (PyStr n) \<longrightarrow>
            skip_message row e =
              ''Skipping POI '' @ apostrophe @ n @ apostrophe @ '' due to geometry error: '' @
              exn_str e) \<and>
         (\<forall>m out.
            create_interactive_map fl graph_to_gdfs title centroid g (before @ after) location_name zoom =
              Inr (m, out) \<longrightarrow>
            create_interactive_map fl graph_to_gdfs title centroid g (before @ row # after) location_name zoom =
              Inr (m, lines_printed title centroid before @ skip_message row e #
                      lines_printed title centroid after)) \<and>
         (\<forall>err.
            create_interactive_map fl graph_to_gdfs title centroid g (before @ row # after) location_name zoom =
              Inl err \<longrightarrow>
            create_interactive_map fl graph_to_gdfs title centroid g (before @ after) location_name zoom =
              Inl err) \<and>
         (\<exists>m. create_interactive_map fl edges_as_given title centroid three_nodes
                 [castle, null_geometry_row] location_name zoom = Inr (m, []) \<and>
              markers_in ''Attractions'' m = all_markers m \<and> length (all_markers m) = 1)"
proof -
  have step: "process_row title centroid row st = st\<lparr>printed := printed st @ [skip_message row e]\<rparr>"
    using assms by (simp add: process_row_def)
  have name: "skip_message row e =
      ''Skipping POI '' @ apostrophe @ n @ apostrophe @ '' due to geometry error: '' @ exn_str e"
    if "columns row ''name'' = Some (PyStr n)" for n
    using that by (simp add: skip_message_def row_get_def)
  have markers: "markers_added title centroid k (before @ row # after) =
      markers_added title centroid k (before @ after)" for k
    using assms(2) by (simp add: markers_added_append row_markers_Inl)
  have lines: "lines_printed title centroid (before @ row # after) =
      lines_printed title centroid before @ skip_message row e # lines_printed title centroid after"
    using assms by (simp add: lines_printed_append row_lines_Inl)
  have returns: "create_interactive_map fl graph_to_gdfs title centroid g (before @ row # after)
        location_name zoom =
      Inr (m, lines_printed title centroid before @ skip_message row e # lines_printed title centroid after)"
    if ret: "create_interactive_map fl graph_to_gdfs title centroid g (before @ after) location_name zoom =
      Inr (m, out)" for m out
  proof -
    obtain center edges_gdf where c: "calculate_graph_centroid fl g = Inr center"
      and e: "graph_to_gdfs g = Inr edges_gdf"
      and m: "m = built_map title centroid center edges_gdf (before @ after) zoom"
      using ret by (auto simp: create_interactive_map_returns)
    have "m = built_map title centroid center edges_gdf (before @ row # after) zoom"
      unfolding m by (rule built_map_cong) (simp add: markers)
    then show ?thesis
      using c e by (simp add: create_interactive_map_returns lines)
  qed
  have raises: "create_interactive_map fl graph_to_gdfs title centroid g (before @ after) location_name zoom =
      Inl err"
    if "create_interactive_map fl graph_to_gdfs title centroid g (before @ row # after) location_name zoom =
      Inl err" for err
    using that by (simp add: create_interactive_map_raises)
  have scenario: "\<exists>m. create_interactive_map fl edges_as_given title centroid three_nodes
                 [castle, null_geometry_row] location_name zoom = Inr (m, []) \<and>
              markers_in ''Attractions'' m = all_markers m \<and> length (all_markers m) = 1"
    using markers_in_built_map [of marker_cluster_attractions title centroid
        "three_nodes_centre fl" "()" "[castle, null_geometry_row]" zoom]
    by (simp add: scenario_map all_markers_built_map scenario_markers
        del: markers_added.simps)
  show ?thesis
    using step name returns raises scenario by blast
qed

theorem failing_row_skipped_witness:
  "has_supported_geometry cafe_without_tourism \<and>
   marker_for_row ascii_title no_centroid cafe_without_tourism =
     Inl (AttributeError (apostrophe @ ''float'' @ apostrophe @
            '' object has no attribute '' @ apostrophe @ ''replace'' @ apostrophe)) \<and>
   create_interactive_map exact_arithmetic edges_as_given ascii_title no_centroid three_nodes
       ([castle] @ []) ''Salzburg'' 14 =
     Inr (built_map ascii_title no_centroid (20, 30) () [castle] 14, []) \<and>
   create_interactive_map exact_arithmetic edges_as_given ascii_title no_centroid three_nodes
       ([castle] @ cafe_without_tourism # []) ''Salzburg'' 14 =
     Inr (built_map ascii_title no_centroid (20, 30) () [castle] 14,
          [''Skipping POI '' @ apostrophe @ ''Tomaselli'' @ apostrophe @
           '' due to geometry error: '' @ apostrophe @ ''float'' @ apostrophe @
           '' object has no attribute '' @ apostrophe @ ''replace'' @ apostrophe])"
proof -
  have without: "create_interactive_map exact_arithmetic edges_as_given ascii_title no_centroid
      three_nodes ([castle] @ []) ''Salzburg'' 14 =
      Inr (built_map ascii_title no_centroid (20, 30) () [castle] 14, [])"
    by (simp add: create_interactive_map_returns three_nodes_centroid three_nodes_centre_exact
        edges_as_given_def row_lines_def castle_marker supported_examples)
  have name: "columns cafe_without_tourism ''name'' = Some (PyStr ''Tomaselli'')"
    by (simp add: cafe_without_tourism_def)
  have line: "lines_printed ascii_title no_centroid [castle] = []"
    by (simp add: row_lines_def castle_marker supported_examples)
  have raises: "marker_for_row ascii_title no_centroid cafe_without_tourism =
     Inl (AttributeError (apostrophe @ ''float'' @ apostrophe @
            '' object has no attribute '' @ apostrophe @ ''replace'' @ apostrophe))"
    by (rule cafe_without_tourism_raises)
  show ?thesis
    using failing_row_skipped [OF supported_examples(3) raises,
        where st = "\<lparr>clusters = (\<lambda>c. []), printed = []\<rparr>" and fl = exact_arithmetic
          and graph_to_gdfs = edges_as_given and g = three_nodes and before = "[castle]"
          and after = "[]" and location_name = "''Salzburg''" and zoom = 14]
      supported_examples(3) raises without name line
    by simp
qed



text \<open>
  The label of a row that gets a marker is the text of its name entry, or
  \<^verbatim>\<open>Unnamed POI\<close> when the row has no name entry, followed by the type string of the
  first populated tag among tourism, amenity, leisure and shop, in this order: the text
  \<^verbatim>\<open>Type: \<close> and the value of that tag alone, with every underscore turned into a space
  and in title case. When none of the four tags is populated the label is the name
  alone. For a row whose name is a text, or that has no name entry, this is the label of
  the rules.
\<close>

lemma popup_of_marker:
  assumes "marker_for_row title centroid row = Inr (k, mk)"
  shows "(first_populated_tag row = None \<longrightarrow>
            popup mk = py_str (row_get row ''name'' (PyStr ''Unnamed POI''))) \<and>
         (\<forall>key. first_populated_tag row = Some key \<longrightarrow>
            (\<exists>s. columns row key = Some (PyStr s) \<and> s \<noteq> [] \<and>
                 popup mk = py_str (row_get row ''name'' (PyStr ''Unnamed POI'')) @
                   ''Type: '' @ title (replace_underscores s)))"
proof -
  obtain t where t: "popup_text title row = Inr t" and p: "popup mk = t"
    using assms by (rule marker_for_row_InrD) simp
  show ?thesis
    using popup_text_label [OF t] p by simp
qed

lemma popup_of_named_row:
  assumes "marker_for_row title centroid row = Inr (k, mk)"
    and "columns row ''name'' = None \<or> (\<exists>s. columns row ''name'' = Some (PyStr s))"
  shows "(first_populated_tag row = None \<longrightarrow> popup mk = name_label row) \<and>
         (\<forall>key. first_populated_tag row = Some key \<longrightarrow>
            (\<exists>s. columns row key = Some (PyStr s) \<and> s \<noteq> [] \<and>
                 popup mk = name_label row @ ''Type: '' @ title (replace_underscores s)))"
  using popup_of_marker [OF assms(1)] name_label_get [OF assms(2)] by simp

text \<open>
  C8. The museum \<open>unnamed_museum\<close> has no name: its label by the rules is
  \<^verbatim>\<open>Unnamed POI\<close> followed by the type string of tourism, its first populated tag. The
  code gives it a marker whose label starts with \<^verbatim>\<open>nan\<close>: the default of
  \<^verbatim>\<open>row.get\<close> stands in for a missing entry only, and the name entry of this row is
  there and holds NaN.
\<close>

theorem unnamed_museum_label:
  "marker_for_row title centroid unnamed_museum =
     Inr (marker_cluster_other,
          \<lparr>location = (47, 13), popup = ''nanType: '' @ title ''museum'',
           popup_max_width = 300,
           icon_color = ''blue'', icon_name = ''info'', icon_prefix = ''fa''\<rparr>) \<and>
   name_label unnamed_museum = ''Unnamed POI'' \<and>
   first_populated_tag unnamed_museum = Some ''tourism'' \<and>
   columns unnamed_museum ''tourism'' = Some (PyStr ''museum'') \<and>
   ''nanType: '' @ title ''museum'' \<noteq>
     name_label unnamed_museum @ ''Type: '' @ title (replace_underscores ''museum'')"
proof -
  have n: "name_label unnamed_museum = ''Unnamed POI''"
    by (simp add: name_label_def unnamed_museum_def)
  have f: "first_populated_tag unnamed_museum = Some ''tourism''"
    by (simp add: first_populated_tag_def populated_def unnamed_museum_def)
  have c: "columns unnamed_museum ''tourism'' = Some (PyStr ''museum'')"
    by (simp add: unnamed_museum_def)
  have d: "''nanType: '' @ title ''museum'' \<noteq>
     name_label unnamed_museum @ ''Type: '' @ title (replace_underscores ''museum'')"
    by (simp add: n)
  show ?thesis
    using unnamed_museum_marker [of title centroid] n f c d by simp
qed

text \<open>
  The centre, the marker counts and the printed lines are functions of the graph and of
  the rows: neither the location label nor the zoom level has a part in them.
\<close>

lemma location_name_unused:
  "create_interactive_map fl graph_to_gdfs title centroid g pois_gdf location_name zoom =
   create_interactive_map fl graph_to_gdfs title centroid g pois_gdf location_name' zoom"
  by (simp add: create_interactive_map_def)

lemma center_and_counts_determined:
  assumes "create_interactive_map fl graph_to_gdfs title centroid g pois_gdf name1 zoom1 = Inr (m1, out1)"
    and "create_interactive_map fl graph_to_gdfs title centroid g pois_gdf name2 zoom2 = Inr (m2, out2)"
  shows "map_location m1 = map_location m2" and "marker_counts m1 = marker_counts m2"
    and "out1 = out2"
proof -
  obtain c1 e1 where 1: "calculate_graph_centroid fl g = Inr c1"
    "m1 = built_map title centroid c1 e1 pois_gdf zoom1" "out1 = lines_printed title centroid pois_gdf"
    using assms(1) by (auto simp: create_interactive_map_returns)
  obtain c2 e2 where 2: "calculate_graph_centroid fl g = Inr c2"
    "m2 = built_map title centroid c2 e2 pois_gdf zoom2" "out2 = lines_printed title centroid pois_gdf"
    using assms(2) by (auto simp: create_interactive_map_returns)
  have "c1 = c2"
    using 1(1) 2(1) by simp
  then show "map_location m1 = map_location m2"
    by (simp add: 1(2) 2(2) built_map_def)
  show "marker_counts m1 = marker_counts m2"
    by (simp add: 1(2) 2(2) built_map_def marker_counts_def)
  show "out1 = out2"
    by (simp add: 1(3) 2(3))
qed

end
